theory Spec2Isabelle
  imports Complex_Main
begin

section \<open>Exceptions\<close>

text \<open>
  Python exceptions of class \<open>Exception\<close>, grouped by the \<open>except\<close> clauses of
  \<open>app.py\<close>: an instance of \<open>FileNotFoundError\<close>, of \<open>ValueError\<close>, of
  \<open>pickle.PickleError\<close> (subclasses included, as \<open>except\<close> matches them), or of any
  other class, kept with its class name. Each carries the text that \<open>str(e)\<close> gives.
\<close>

datatype exn =
    FileNotFoundError string
  | ValueError string
  | PickleError string
  | OtherException string string

fun str_exn :: "exn \<Rightarrow> string" where
  "str_exn (FileNotFoundError m) = m"
| "str_exn (ValueError m) = m"
| "str_exn (PickleError m) = m"
| "str_exn (OtherException c m) = m"

section \<open>Data frames\<close>

text \<open>
  A pandas DataFrame, column by column as pandas stores it: the row labels and, for each
  column label, the values of that column. Floats are reals: the program only compares
  them with zero and hands them on.
\<close>

datatype cell = Num real | Str string

record dataframe =
  df_index :: "nat list"
  df_columns :: "(string \<times> cell list) list"

definition column_names :: "dataframe \<Rightarrow> string list" where
  "column_names d = map fst (df_columns d)"

definition row_count :: "dataframe \<Rightarrow> nat" where
  "row_count d = length (df_index d)"

text \<open>\<open>df[names]\<close> with a list of labels: the named columns in the order of the list,
  \<open>KeyError\<close> when a label is not a column.\<close>

fun select_columns :: "(string \<times> cell list) list \<Rightarrow> string list \<Rightarrow> exn + (string \<times> cell list) list" where
  "select_columns cs [] = Inr []"
| "select_columns cs (c # names) =
     (case map_of cs c of
        None \<Rightarrow> Inl (OtherException ''KeyError'' c)
      | Some vs \<Rightarrow>
          (case select_columns cs names of
             Inl e \<Rightarrow> Inl e
           | Inr r \<Rightarrow> Inr ((c, vs) # r)))"

definition getitem_columns :: "dataframe \<Rightarrow> string list \<Rightarrow> exn + dataframe" where
  "getitem_columns d names =
     (case select_columns (df_columns d) names of
        Inl e \<Rightarrow> Inl e
      | Inr cs \<Rightarrow> Inr \<lparr>df_index = df_index d, df_columns = cs\<rparr>)"

text \<open>\<open>df.head(n)\<close> is \<open>df.iloc[:n]\<close>: the first \<open>n\<close> rows, and for a negative \<open>n\<close> all rows
  but the last \<open>-n\<close>.\<close>

definition head_count :: "nat \<Rightarrow> int \<Rightarrow> nat" where
  "head_count len n = (if 0 \<le> n then nat n else nat (int len + n))"

definition head :: "dataframe \<Rightarrow> int \<Rightarrow> dataframe" where
  "head d n =
     (let k = head_count (length (df_index d)) n
      in \<lparr>df_index = take k (df_index d),
          df_columns = map (\<lambda>(c, vs). (c, take k vs)) (df_columns d)\<rparr>)"

text \<open>The wording "the last n rows", for comparison with what the page shows.\<close>

definition last_rows :: "dataframe \<Rightarrow> nat \<Rightarrow> dataframe" where
  "last_rows d n =
     \<lparr>df_index = drop (length (df_index d) - n) (df_index d),
      df_columns = map (\<lambda>(c, vs). (c, drop (length vs - n) vs)) (df_columns d)\<rparr>"

section \<open>The environment\<close>

text \<open>
  What the program calls outside itself: \<open>Path.exists\<close>, \<open>pd.read_csv\<close>, \<open>open\<close> followed
  by \<open>pickle.load\<close>, the loaded model's \<open>predict\<close> method (the model is an object, so the
  call returns the model as it is afterwards), the \<open>.2f\<close> format, the \<open>repr\<close> of a set,
  and the text of the \<open>IndexError\<close> that the model's result raises when it is empty and
  indexed at 0 (the container's own text).
  A path is the text of its \<open>Path\<close> object. A Python set of column names is the list of
  its elements in iteration order.
\<close>

type_synonym path = string

record 'm env =
  path_exists :: "path \<Rightarrow> bool"
  read_csv :: "path \<Rightarrow> exn + dataframe"
  pickle_load :: "path \<Rightarrow> exn + 'm"
  model_predict :: "'m \<Rightarrow> dataframe \<Rightarrow> (exn + real list) \<times> 'm"
  format_2f :: "real \<Rightarrow> string"
  repr_set :: "string list \<Rightarrow> string"
  index_error_text :: string

text \<open>What is observable of a run: calls that read a file, calls of the model, and the
  Streamlit calls.\<close>

datatype event =
    Read_csv path
  | Pickle_load path
  | Model_predict dataframe
  | St_error string
  | St_stop
  | St_title string
  | St_subheader string
  | St_table dataframe
  | St_number_input string
  | St_button string
  | St_write string

text \<open>How a constructor or \<open>run\<close> ends: it returns, \<open>st.stop()\<close> ends the script, or an
  exception leaves it uncaught.\<close>

datatype 'a outcome = Returned 'a | Script_stopped | Uncaught exn

section \<open>DataHandler\<close>

record DataHandler =
  dh_file_path :: path
  dh_required_columns :: "string list"
  dh_df :: dataframe

text \<open>\<open>DataHandler._load_data\<close>\<close>

definition load_data :: "'m env \<Rightarrow> path \<Rightarrow> string list \<Rightarrow> event list \<times> (exn + dataframe)" where
  "load_data env fp rc =
     (if \<not> path_exists env fp then ([], Inl (FileNotFoundError (''File not found: '' @ fp)))
      else
        (case read_csv env fp of
           Inl e \<Rightarrow> ([Read_csv fp], Inl e)
         | Inr d \<Rightarrow>
             if \<not> set rc \<subseteq> set (column_names d)
             then ([Read_csv fp],
                   Inl (ValueError (''CSV file must contain these columns: '' @ repr_set env rc)))
             else ([Read_csv fp], Inr d)))"

text \<open>\<open>DataHandler.__init__\<close>\<close>

definition DataHandler_init :: "'m env \<Rightarrow> path \<Rightarrow> string list \<Rightarrow> event list \<times> (exn + DataHandler)" where
  "DataHandler_init env fp rc =
     (case load_data env fp rc of
        (t, Inl e) \<Rightarrow> (t, Inl e)
      | (t, Inr d) \<Rightarrow> (t, Inr \<lparr>dh_file_path = fp, dh_required_columns = rc, dh_df = d\<rparr>))"

text \<open>\<open>DataHandler.get_head\<close>\<close>

definition get_head :: "DataHandler \<Rightarrow> int \<Rightarrow> exn + dataframe" where
  "get_head dh n =
     (case getitem_columns (dh_df dh) (dh_required_columns dh) of
        Inl e \<Rightarrow> Inl e
      | Inr d \<Rightarrow> Inr (head d n))"

section \<open>Predictor\<close>

record 'm Predictor =
  pr_model_path :: path
  pr_model :: 'm

text \<open>\<open>Predictor._load_model\<close>: only a \<open>pickle.PickleError\<close> is caught and raised again
  with the longer message.\<close>

definition load_model :: "'m env \<Rightarrow> path \<Rightarrow> event list \<times> (exn + 'm)" where
  "load_model env mp =
     (if \<not> path_exists env mp then ([], Inl (FileNotFoundError (''Model file not found: '' @ mp)))
      else
        (case pickle_load env mp of
           Inl (PickleError m) \<Rightarrow> ([Pickle_load mp], Inl (PickleError (''Failed to load model: '' @ m)))
         | Inl e \<Rightarrow> ([Pickle_load mp], Inl e)
         | Inr mdl \<Rightarrow> ([Pickle_load mp], Inr mdl)))"

text \<open>\<open>Predictor.__init__\<close>\<close>

definition Predictor_init :: "'m env \<Rightarrow> path \<Rightarrow> event list \<times> (exn + 'm Predictor)" where
  "Predictor_init env mp =
     (case load_model env mp of
        (t, Inl e) \<Rightarrow> (t, Inl e)
      | (t, Inr mdl) \<Rightarrow> (t, Inr \<lparr>pr_model_path = mp, pr_model = mdl\<rparr>))"

text \<open>\<open>Predictor.predict\<close>: the first element of what the model returns.\<close>

definition predict :: "'m env \<Rightarrow> 'm Predictor \<Rightarrow> dataframe \<Rightarrow> (exn + real) \<times> 'm Predictor" where
  "predict env pr input_data =
     (case model_predict env (pr_model pr) input_data of
        (Inl e, mdl) \<Rightarrow> (Inl e, pr\<lparr>pr_model := mdl\<rparr>)
      | (Inr ys, mdl) \<Rightarrow>
          (case ys of
             [] \<Rightarrow> (Inl (OtherException ''IndexError'' (index_error_text env)), pr\<lparr>pr_model := mdl\<rparr>)
           | y # _ \<Rightarrow> (Inr y, pr\<lparr>pr_model := mdl\<rparr>)))"

section \<open>GoldPriceApp\<close>

record 'm GoldPriceApp =
  app_data_handler :: DataHandler
  app_predictor :: "'m Predictor"
  app_required_columns :: "string list"

text \<open>The \<open>except (FileNotFoundError, ValueError, pickle.PickleError)\<close> clause of
  \<open>GoldPriceApp.__init__\<close>.\<close>

fun init_caught :: "exn \<Rightarrow> bool" where
  "init_caught (FileNotFoundError m) = True"
| "init_caught (ValueError m) = True"
| "init_caught (PickleError m) = True"
| "init_caught (OtherException c m) = False"

definition init_except :: "event list \<Rightarrow> exn \<Rightarrow> event list \<times> 'a outcome" where
  "init_except t e =
     (if init_caught e then (t @ [St_error (str_exn e), St_stop], Script_stopped)
      else (t, Uncaught e))"

text \<open>\<open>GoldPriceApp.__init__\<close>\<close>

definition GoldPriceApp_init ::
  "'m env \<Rightarrow> path \<Rightarrow> path \<Rightarrow> string list \<Rightarrow> event list \<times> 'm GoldPriceApp outcome" where
  "GoldPriceApp_init env data_path model_path required_columns =
     (case DataHandler_init env data_path required_columns of
        (t1, Inl e) \<Rightarrow> init_except t1 e
      | (t1, Inr dh) \<Rightarrow>
          (case Predictor_init env model_path of
             (t2, Inl e) \<Rightarrow> init_except (t1 @ t2) e
           | (t2, Inr pr) \<Rightarrow>
               (t1 @ t2,
                Returned \<lparr>app_data_handler = dh, app_predictor = pr,
                          app_required_columns = required_columns\<rparr>)))"

text \<open>What the user has entered when the script runs: the three number inputs and whether
  the button was pressed.\<close>

record ui_input =
  open_price :: real
  high_price :: real
  low_price :: real
  predict_clicked :: bool

definition input_df :: "ui_input \<Rightarrow> dataframe" where
  "input_df inp =
     \<lparr>df_index = [0],
      df_columns = [(''Open'', [Num (open_price inp)]),
                    (''High'', [Num (high_price inp)]),
                    (''Low'', [Num (low_price inp)])]\<rparr>"

definition page_head :: "event list" where
  "page_head = [St_title ''Gold Price Prediction'', St_subheader ''Last 4 Open, High, Low Prices'']"

definition page_form :: "dataframe \<Rightarrow> event list" where
  "page_form tbl =
     [St_table tbl, St_subheader ''Enter Price Data'',
      St_number_input ''Open Price'', St_number_input ''High Price'',
      St_number_input ''Low Price'', St_button ''Predict'']"

text \<open>\<open>GoldPriceApp.run\<close>\<close>

definition run :: "'m env \<Rightarrow> 'm GoldPriceApp \<Rightarrow> ui_input \<Rightarrow> event list \<times> 'm GoldPriceApp outcome" where
  "run env app inp =
     (case get_head (app_data_handler app) 4 of
        Inl e \<Rightarrow> (page_head, Uncaught e)
      | Inr tbl \<Rightarrow>
          if \<not> predict_clicked inp then (page_head @ page_form tbl, Returned app)
          else if open_price inp \<le> 0 \<or> high_price inp \<le> 0 \<or> low_price inp \<le> 0
          then (page_head @ page_form tbl @ [St_error ''All prices must be positive values.''],
                Returned app)
          else
            (case predict env (app_predictor app) (input_df inp) of
               (Inr y, pr) \<Rightarrow>
                 (page_head @ page_form tbl @
                    [Model_predict (input_df inp),
                     St_write (''The predicted closing price is: '' @ format_2f env y)],
                  Returned (app\<lparr>app_predictor := pr\<rparr>))
             | (Inl e, pr) \<Rightarrow>
                 (page_head @ page_form tbl @
                    [Model_predict (input_df inp),
                     St_error (''Prediction failed: '' @ str_exn e)],
                  Returned (app\<lparr>app_predictor := pr\<rparr>))))"

text \<open>A session: \<open>run\<close> once for every interaction, on the application object as the run
  before left it, until a run does not return.\<close>

fun session :: "'m env \<Rightarrow> 'm GoldPriceApp \<Rightarrow> ui_input list \<Rightarrow> event list list \<times> 'm GoldPriceApp outcome" where
  "session env app [] = ([], Returned app)"
| "session env app (inp # inps) =
     (case run env app inp of
        (t, Returned app') \<Rightarrow> (case session env app' inps of (ts, r) \<Rightarrow> (t # ts, r))
      | (t, Script_stopped) \<Rightarrow> ([t], Script_stopped)
      | (t, Uncaught e) \<Rightarrow> ([t], Uncaught e))"

definition infer_calls :: "event list \<Rightarrow> dataframe list" where
  "infer_calls t = concat (map (\<lambda>ev. case ev of Model_predict d \<Rightarrow> [d] | _ \<Rightarrow> []) t)"

definition file_reads :: "event list \<Rightarrow> path list" where
  "file_reads t =
     concat (map (\<lambda>ev. case ev of Read_csv p \<Rightarrow> [p] | Pickle_load p \<Rightarrow> [p] | _ \<Rightarrow> []) t)"

definition tables :: "event list \<Rightarrow> dataframe list" where
  "tables t = concat (map (\<lambda>ev. case ev of St_table d \<Rightarrow> [d] | _ \<Rightarrow> []) t)"

definition messages :: "event list \<Rightarrow> event list" where
  "messages t =
     filter (\<lambda>ev. case ev of St_error m \<Rightarrow> True | St_stop \<Rightarrow> True | St_write m \<Rightarrow> True | _ \<Rightarrow> False) t"

text \<open>The exception that loading the dataset and then the model raises, if any: the model
  is not loaded when the dataset fails.\<close>

definition load_failure :: "'m env \<Rightarrow> path \<Rightarrow> path \<Rightarrow> string list \<Rightarrow> exn option" where
  "load_failure env data_path model_path required_columns =
     (case snd (DataHandler_init env data_path required_columns) of
        Inl e \<Rightarrow> Some e
      | Inr dh \<Rightarrow>
          (case snd (Predictor_init env model_path) of
             Inl e \<Rightarrow> Some e
           | Inr pr \<Rightarrow> None))"

section \<open>An example installation\<close>

text \<open>Five rows of prices with a date column, and a model that averages the three prices,
  rejects a high below the low, and keeps no state.\<close>

definition example_df :: dataframe where
  "example_df =
     \<lparr>df_index = [0, 1, 2, 3, 4],
      df_columns =
        [(''Date'', [Str ''d0'', Str ''d1'', Str ''d2'', Str ''d3'', Str ''d4'']),
         (''Open'', [Num 10, Num 11, Num 12, Num 13, Num 14]),
         (''High'', [Num 20, Num 21, Num 22, Num 23, Num 24]),
         (''Low'', [Num 5, Num 6, Num 7, Num 8, Num 9])]\<rparr>"

definition example_predict :: "nat \<Rightarrow> dataframe \<Rightarrow> (exn + real list) \<times> nat" where
  "example_predict m d =
     (case df_columns d of
        [(a, [Num x]), (b, [Num y]), (c, [Num z])] \<Rightarrow>
          if y < z then (Inl (ValueError ''High below Low''), m)
          else (Inr [(x + y + z) / 3], m)
      | _ \<Rightarrow> (Inl (ValueError ''bad shape''), m))"

definition example_env :: "nat env" where
  "example_env =
     \<lparr>path_exists = (\<lambda>p. p = ''Gold_Price.csv'' \<or> p = ''svm_model.pkl'' \<or> p = ''short.csv''
                          \<or> p = ''cut.pkl'' \<or> p = ''bad.pkl''),
      read_csv = (\<lambda>p. if p = ''Gold_Price.csv'' then Inr example_df
                      else if p = ''short.csv''
                      then Inr \<lparr>df_index = [0], df_columns = [(''Open'', [Num 1]), (''High'', [Num 2])]\<rparr>
                      else Inl (OtherException ''PermissionError'' ''Permission denied'')),
      pickle_load = (\<lambda>p. if p = ''svm_model.pkl'' then Inr 0
                         else if p = ''bad.pkl'' then Inl (PickleError ''invalid load key'')
                         else Inl (OtherException ''EOFError'' ''Ran out of input'')),
      model_predict = example_predict,
      format_2f = (\<lambda>y. if y = 1910 then ''1910.00'' else ''other''),
      repr_set = (\<lambda>names. concat (map (\<lambda>c. c @ '' '') names)),
      index_error_text = ''list index out of range''\<rparr>"

definition example_columns :: "string list" where
  "example_columns = [''Open'', ''High'', ''Low'']"

definition example_view :: dataframe where
  "example_view =
     \<lparr>df_index = [0, 1, 2, 3, 4],
      df_columns =
        [(''Open'', [Num 10, Num 11, Num 12, Num 13, Num 14]),
         (''High'', [Num 20, Num 21, Num 22, Num 23, Num 24]),
         (''Low'', [Num 5, Num 6, Num 7, Num 8, Num 9])]\<rparr>"

definition example_dh :: DataHandler where
  "example_dh =
     \<lparr>dh_file_path = ''Gold_Price.csv'', dh_required_columns = example_columns, dh_df = example_df\<rparr>"

definition example_app :: "nat GoldPriceApp" where
  "example_app =
     \<lparr>app_data_handler = example_dh,
      app_predictor = \<lparr>pr_model_path = ''svm_model.pkl'', pr_model = 0\<rparr>,
      app_required_columns = example_columns\<rparr>"

definition ui :: "real \<Rightarrow> real \<Rightarrow> real \<Rightarrow> bool \<Rightarrow> ui_input" where
  "ui a b c k = \<lparr>open_price = a, high_price = b, low_price = c, predict_clicked = k\<rparr>"

text \<open>A second installation on the same dataset: the model answers 0 and keeps, as its
  state, the list of the frames it was given; the application is the one constructed for
  the required columns \<open>rc\<close>.\<close>

definition recording_env :: "dataframe list env" where
  "recording_env =
     \<lparr>path_exists = (\<lambda>p. p = ''Gold_Price.csv'' \<or> p = ''svm_model.pkl''),
      read_csv = (\<lambda>p. Inr example_df),
      pickle_load = (\<lambda>p. Inr []),
      model_predict = (\<lambda>m d. (Inr [0], m @ [d])),
      format_2f = (\<lambda>y. if y = 0 then ''0.00'' else ''other''),
      repr_set = (\<lambda>names. concat (map (\<lambda>c. c @ '' '') names)),
      index_error_text = ''list index out of range''\<rparr>"

definition recording_app :: "string list \<Rightarrow> dataframe list GoldPriceApp" where
  "recording_app rc =
     \<lparr>app_data_handler = \<lparr>dh_file_path = ''Gold_Price.csv'', dh_required_columns = rc, dh_df = example_df\<rparr>,
      app_predictor = \<lparr>pr_model_path = ''svm_model.pkl'', pr_model = []\<rparr>,
      app_required_columns = rc\<rparr>"

section \<open>Construction of the example\<close>

lemma example_load_data:
  "load_data example_env ''Gold_Price.csv'' example_columns = ([Read_csv ''Gold_Price.csv''], Inr example_df)"
  by (simp add: load_data_def example_env_def example_columns_def example_df_def column_names_def)

section \<open>What a successful load guarantees\<close>

lemma select_columns_present:
  "set names \<subseteq> fst ` set cs \<Longrightarrow>
     \<exists>r. select_columns cs names = Inr r \<and> map fst r = names \<and>
         (\<forall>(c, vs) \<in> set r. map_of cs c = Some vs)"
proof (induction names)
  case Nil
  then show ?case by simp
next
  case (Cons c names)
  then obtain r where r: "select_columns cs names = Inr r" "map fst r = names"
      "\<forall>(c, vs) \<in> set r. map_of cs c = Some vs"
    by auto
  from Cons.prems have "c \<in> fst ` set cs" by simp
  then obtain vs where vs: "map_of cs c = Some vs"
    by (metis map_of_eq_None_iff not_Some_eq)
  with r show ?case by simp
qed

lemma load_data_Inr:
  "load_data env fp rc = (t, Inr d) \<Longrightarrow>
     path_exists env fp \<and> read_csv env fp = Inr d \<and> set rc \<subseteq> set (column_names d) \<and> t = [Read_csv fp]"
  by (auto simp: load_data_def split: if_splits sum.splits)

lemma DataHandler_init_Inr:
  "DataHandler_init env fp rc = (t, Inr dh) \<Longrightarrow>
     dh_required_columns dh = rc \<and> dh_file_path dh = fp \<and> read_csv env fp = Inr (dh_df dh) \<and>
     set rc \<subseteq> set (column_names (dh_df dh))"
proof -
  assume a: "DataHandler_init env fp rc = (t, Inr dh)"
  then obtain d where d: "load_data env fp rc = (t, Inr d)"
    and dh: "dh = \<lparr>dh_file_path = fp, dh_required_columns = rc, dh_df = d\<rparr>"
    by (auto simp: DataHandler_init_def split: prod.splits sum.splits)
  from load_data_Inr [OF d] dh show ?thesis by simp
qed

lemma get_head_present:
  assumes "set (dh_required_columns dh) \<subseteq> set (column_names (dh_df dh))"
  shows "\<exists>cs. select_columns (df_columns (dh_df dh)) (dh_required_columns dh) = Inr cs \<and>
           map fst cs = dh_required_columns dh \<and>
           (\<forall>(c, vs) \<in> set cs. map_of (df_columns (dh_df dh)) c = Some vs) \<and>
           get_head dh n = Inr (head \<lparr>df_index = df_index (dh_df dh), df_columns = cs\<rparr> n)"
proof -
  from assms have "set (dh_required_columns dh) \<subseteq> fst ` set (df_columns (dh_df dh))"
    by (simp add: column_names_def)
  from select_columns_present [OF this] obtain cs where
    "select_columns (df_columns (dh_df dh)) (dh_required_columns dh) = Inr cs"
    "map fst cs = dh_required_columns dh"
    "\<forall>(c, vs) \<in> set cs. map_of (df_columns (dh_df dh)) c = Some vs"
    by blast
  then show ?thesis
    by (simp add: get_head_def getitem_columns_def)
qed

section \<open>Loading the dataset\<close>

text \<open>
  C5: for every dataset path that does not exist, \<open>DataHandler\<close> construction fails
  with \<open>FileNotFoundError\<close>, and no file is read.
\<close>

theorem DataHandler_init_missing_path:
  assumes "\<not> path_exists env fp"
  shows "DataHandler_init env fp rc = ([], Inl (FileNotFoundError (''File not found: '' @ fp))) \<and>
         file_reads (fst (DataHandler_init env fp rc)) = []"
  using assms by (simp add: DataHandler_init_def load_data_def file_reads_def)

theorem DataHandler_init_missing_path_witness:
  "\<not> path_exists example_env ''nowhere.csv'' \<and>
   DataHandler_init example_env ''nowhere.csv'' example_columns =
     ([], Inl (FileNotFoundError ''File not found: nowhere.csv'')) \<and>
   file_reads (fst (DataHandler_init example_env ''nowhere.csv'' example_columns)) = []"
proof -
  have h: "\<not> path_exists example_env ''nowhere.csv''"
    by (simp add: example_env_def)
  show ?thesis
    using h DataHandler_init_missing_path [OF h, of example_columns] by (simp add: file_reads_def)
qed

text \<open>
  C6: for every existing dataset file whose loaded columns lack at least one of the
  required names, \<open>DataHandler\<close> construction fails with \<open>ValueError\<close>, the
  schema error.
\<close>

theorem DataHandler_init_missing_column:
  assumes "path_exists env fp" and "read_csv env fp = Inr d"
    and "\<not> set rc \<subseteq> set (column_names d)"
  shows "DataHandler_init env fp rc =
           ([Read_csv fp], Inl (ValueError (''CSV file must contain these columns: '' @ repr_set env rc)))"
  using assms by (simp add: DataHandler_init_def load_data_def)

theorem DataHandler_init_missing_column_witness:
  "path_exists example_env ''short.csv'' \<and>
   read_csv example_env ''short.csv'' =
     Inr \<lparr>df_index = [0], df_columns = [(''Open'', [Num 1]), (''High'', [Num 2])]\<rparr> \<and>
   \<not> set example_columns \<subseteq>
       set (column_names \<lparr>df_index = [0], df_columns = [(''Open'', [Num 1]), (''High'', [Num 2])]\<rparr>) \<and>
   DataHandler_init example_env ''short.csv'' example_columns =
     ([Read_csv ''short.csv''], Inl (ValueError ''CSV file must contain these columns: Open High Low ''))"
proof -
  let ?d = "\<lparr>df_index = [0], df_columns = [(''Open'', [Num 1]), (''High'', [Num 2])]\<rparr>"
  have h1: "path_exists example_env ''short.csv''"
    by (simp add: example_env_def)
  have h2: "read_csv example_env ''short.csv'' = Inr ?d"
    by (simp add: example_env_def)
  have h3: "\<not> set example_columns \<subseteq> set (column_names ?d)"
    by (simp add: example_columns_def column_names_def)
  have "repr_set example_env example_columns = ''Open High Low ''"
    by (simp add: example_env_def example_columns_def)
  with h1 h2 h3 DataHandler_init_missing_column [OF h1 h2 h3] show ?thesis
    by simp
qed

section \<open>The preview slice\<close>

lemma head_nonneg:
  "0 \<le> n \<Longrightarrow> head d n =
     \<lparr>df_index = take (nat n) (df_index d),
      df_columns = map (\<lambda>(c, vs). (c, take (nat n) vs)) (df_columns d)\<rparr>"
  by (simp add: head_def head_count_def Let_def)

lemma get_head_view:
  assumes sub: "set (dh_required_columns dh) \<subseteq> set (column_names (dh_df dh))" and n: "0 \<le> n"
  shows "\<exists>r. get_head dh n = Inr r \<and>
           row_count r = min (nat n) (row_count (dh_df dh)) \<and>
           df_index r = take (nat n) (df_index (dh_df dh)) \<and>
           column_names r = dh_required_columns dh \<and>
           (\<forall>(c, vs) \<in> set (df_columns r).
              \<exists>ws. map_of (df_columns (dh_df dh)) c = Some ws \<and> vs = take (nat n) ws)"
proof -
  from get_head_present [OF sub, of n] obtain cs where
    cs: "map fst cs = dh_required_columns dh"
      "\<forall>(c, vs) \<in> set cs. map_of (df_columns (dh_df dh)) c = Some vs"
      "get_head dh n = Inr (head \<lparr>df_index = df_index (dh_df dh), df_columns = cs\<rparr> n)"
    by blast
  let ?r = "head \<lparr>df_index = df_index (dh_df dh), df_columns = cs\<rparr> n"
  have idx: "df_index ?r = take (nat n) (df_index (dh_df dh))"
    using n by (simp add: head_nonneg)
  have cols: "df_columns ?r = map (\<lambda>(c, vs). (c, take (nat n) vs)) cs"
    using n by (simp add: head_nonneg)
  have names: "column_names ?r = dh_required_columns dh"
    unfolding column_names_def cols using cs(1) by (simp add: case_prod_beta comp_def)
  have cnt: "row_count ?r = min (nat n) (row_count (dh_df dh))"
    unfolding row_count_def idx by (simp add: min.commute)
  have vals: "\<forall>(c, vs) \<in> set (df_columns ?r).
      \<exists>ws. map_of (df_columns (dh_df dh)) c = Some ws \<and> vs = take (nat n) ws"
    unfolding cols using cs(2) by auto
  from cs(3) idx names cnt vals show ?thesis by blast
qed

text \<open>
  C2, as the code has it: for every dataset whose construction succeeded and every
  \<open>n \<ge> 0\<close>, \<open>get_head n\<close> returns the first \<open>min n row_count\<close> rows, restricted to
  the required columns, every column holding its first values in their order. For a
  negative \<open>n\<close> pandas drops the last \<open>-n\<close> rows instead, so the count is not
  \<open>min n row_count\<close> there.
\<close>

theorem get_head_first_rows:
  assumes "DataHandler_init env fp rc = (t, Inr dh)" and "0 \<le> n"
  shows "\<exists>r. get_head dh n = Inr r \<and>
           row_count r = min (nat n) (row_count (dh_df dh)) \<and>
           df_index r = take (nat n) (df_index (dh_df dh)) \<and>
           column_names r = rc \<and>
           (\<forall>(c, vs) \<in> set (df_columns r).
              \<exists>ws. map_of (df_columns (dh_df dh)) c = Some ws \<and> vs = take (nat n) ws)"
proof -
  from DataHandler_init_Inr [OF assms(1)]
  have rc: "dh_required_columns dh = rc" and sub: "set rc \<subseteq> set (column_names (dh_df dh))"
    by simp_all
  from sub rc have "set (dh_required_columns dh) \<subseteq> set (column_names (dh_df dh))"
    by simp
  from get_head_view [OF this assms(2)] rc show ?thesis by simp
qed

lemma example_DataHandler_init:
  "DataHandler_init example_env ''Gold_Price.csv'' example_columns =
     ([Read_csv ''Gold_Price.csv''], Inr example_dh)"
  by (simp add: DataHandler_init_def example_load_data example_dh_def)

lemma example_getitem:
  "getitem_columns example_df example_columns = Inr example_view"
  by (simp add: getitem_columns_def example_df_def example_columns_def example_view_def)

lemma example_get_head: "get_head example_dh n = Inr (head example_view n)"
  by (simp add: get_head_def example_dh_def example_getitem)

theorem get_head_first_rows_witness:
  "DataHandler_init example_env ''Gold_Price.csv'' example_columns =
     ([Read_csv ''Gold_Price.csv''], Inr example_dh) \<and>
   (0::int) \<le> 2 \<and>
   get_head example_dh 2 =
     Inr \<lparr>df_index = [0, 1],
          df_columns = [(''Open'', [Num 10, Num 11]), (''High'', [Num 20, Num 21]),
                        (''Low'', [Num 5, Num 6])]\<rparr>"
proof -
  have h2: "(0::int) \<le> 2" by simp
  have "get_head example_dh 2 =
     Inr \<lparr>df_index = [0, 1],
          df_columns = [(''Open'', [Num 10, Num 11]), (''High'', [Num 20, Num 21]),
                        (''Low'', [Num 5, Num 6])]\<rparr>"
    by (simp add: example_get_head head_nonneg example_view_def)
  with get_head_first_rows [OF example_DataHandler_init h2] example_DataHandler_init
  show ?thesis by simp
qed

theorem get_head_negative_counterexample:
  "DataHandler_init example_env ''Gold_Price.csv'' example_columns =
     ([Read_csv ''Gold_Price.csv''], Inr example_dh) \<and>
   get_head example_dh (- 1) = Inr (head example_view (- 1)) \<and>
   row_count (dh_df example_dh) = 5 \<and>
   row_count (head example_view (- 1)) = 4 \<and>
   int (row_count (head example_view (- 1))) \<noteq> min (- 1) (int (row_count (dh_df example_dh)))"
proof -
  have "row_count (dh_df example_dh) = 5"
    by (simp add: row_count_def example_dh_def example_df_def)
  moreover have "row_count (head example_view (- 1)) = 4"
    by (simp add: row_count_def head_def head_count_def example_view_def)
  ultimately show ?thesis
    by (simp add: example_DataHandler_init example_get_head)
qed

section \<open>Loading the model\<close>

lemma load_model_missing:
  "\<not> path_exists env mp \<Longrightarrow>
     load_model env mp = ([], Inl (FileNotFoundError (''Model file not found: '' @ mp)))"
  by (simp add: load_model_def)

lemma load_model_pickle_error:
  "path_exists env mp \<Longrightarrow> pickle_load env mp = Inl (PickleError m) \<Longrightarrow>
     load_model env mp = ([Pickle_load mp], Inl (PickleError (''Failed to load model: '' @ m)))"
  by (simp add: load_model_def)

lemma load_model_other:
  "path_exists env mp \<Longrightarrow> pickle_load env mp = Inl e \<Longrightarrow> \<forall>m. e \<noteq> PickleError m \<Longrightarrow>
     load_model env mp = ([Pickle_load mp], Inl e)"
  by (cases e) (simp_all add: load_model_def)

lemma load_model_loaded:
  "path_exists env mp \<Longrightarrow> pickle_load env mp = Inr mdl \<Longrightarrow>
     load_model env mp = ([Pickle_load mp], Inr mdl)"
  by (simp add: load_model_def)

lemma load_model_Inl:
  assumes "snd (load_model env mp) = Inl e"
  shows "(\<not> path_exists env mp \<and> e = FileNotFoundError (''Model file not found: '' @ mp)) \<or>
         (path_exists env mp \<and>
            (\<exists>m. pickle_load env mp = Inl (PickleError m) \<and> e = PickleError (''Failed to load model: '' @ m))) \<or>
         (path_exists env mp \<and> pickle_load env mp = Inl e)"
proof (cases "path_exists env mp")
  case False
  with assms show ?thesis by (simp add: load_model_missing)
next
  case True
  show ?thesis
  proof (cases "pickle_load env mp")
    case (Inr mdl)
    with True assms show ?thesis by (simp add: load_model_loaded)
  next
    case (Inl x)
    show ?thesis
    proof (cases "\<exists>m. x = PickleError m")
      case True
      then obtain m where "x = PickleError m" ..
      with Inl \<open>path_exists env mp\<close> assms show ?thesis
        by (simp add: load_model_pickle_error)
    next
      case False
      with Inl \<open>path_exists env mp\<close> assms show ?thesis
        by (simp add: load_model_other)
    qed
  qed
qed

lemma snd_Predictor_init_Inl:
  "snd (Predictor_init env mp) = Inl e \<longleftrightarrow> snd (load_model env mp) = Inl e"
  by (simp add: Predictor_init_def split: prod.splits sum.splits)

text \<open>
  C4: \<open>Predictor\<close> construction fails with \<open>FileNotFoundError\<close> when the model path
  does not exist and with \<open>pickle.PickleError\<close> when the artifact at an existing path is
  corrupt or incompatible, and a failed load has no other outcome. The code does not keep
  this: \<open>_load_model\<close> wraps only a \<open>pickle.PickleError\<close>, as for the artifact
  \<open>bad.pkl\<close> below, while for the truncated artifact \<open>cut.pkl\<close>, where \<open>pickle.load\<close>
  raises \<open>EOFError\<close>, the constructor fails with that \<open>EOFError\<close>, and the application's
  constructor neither shows it nor stops the script.
\<close>

theorem Predictor_init_truncated_artifact:
  "path_exists example_env ''cut.pkl'' \<and>
   pickle_load example_env ''cut.pkl'' = Inl (OtherException ''EOFError'' ''Ran out of input'') \<and>
   Predictor_init example_env ''cut.pkl'' =
     ([Pickle_load ''cut.pkl''], Inl (OtherException ''EOFError'' ''Ran out of input'')) \<and>
   GoldPriceApp_init example_env ''Gold_Price.csv'' ''cut.pkl'' example_columns =
     ([Read_csv ''Gold_Price.csv'', Pickle_load ''cut.pkl''],
      Uncaught (OtherException ''EOFError'' ''Ran out of input'')) \<and>
   path_exists example_env ''bad.pkl'' \<and>
   pickle_load example_env ''bad.pkl'' = Inl (PickleError ''invalid load key'') \<and>
   Predictor_init example_env ''bad.pkl'' =
     ([Pickle_load ''bad.pkl''], Inl (PickleError ''Failed to load model: invalid load key''))"
proof -
  have env: "path_exists example_env ''cut.pkl''"
    "pickle_load example_env ''cut.pkl'' = Inl (OtherException ''EOFError'' ''Ran out of input'')"
    "path_exists example_env ''bad.pkl''"
    "pickle_load example_env ''bad.pkl'' = Inl (PickleError ''invalid load key'')"
    by (simp_all add: example_env_def)
  have cut: "Predictor_init example_env ''cut.pkl'' =
     ([Pickle_load ''cut.pkl''], Inl (OtherException ''EOFError'' ''Ran out of input''))"
    using env(1,2) by (simp add: Predictor_init_def load_model_other)
  have bad: "Predictor_init example_env ''bad.pkl'' =
     ([Pickle_load ''bad.pkl''], Inl (PickleError ''Failed to load model: invalid load key''))"
    using env(3,4) by (simp add: Predictor_init_def load_model_pickle_error)
  have app: "GoldPriceApp_init example_env ''Gold_Price.csv'' ''cut.pkl'' example_columns =
     ([Read_csv ''Gold_Price.csv'', Pickle_load ''cut.pkl''],
      Uncaught (OtherException ''EOFError'' ''Ran out of input''))"
    by (simp add: GoldPriceApp_init_def example_DataHandler_init cut init_except_def)
  from env cut bad app show ?thesis by simp
qed

section \<open>Construction of the application\<close>

lemma messages_append: "messages (xs @ ys) = messages xs @ messages ys"
  by (simp add: messages_def)

lemma load_data_trace: "messages (fst (load_data env fp rc)) = []"
  by (simp add: load_data_def messages_def split: sum.splits)

lemma DataHandler_init_trace: "messages (fst (DataHandler_init env fp rc)) = []"
proof -
  have "fst (DataHandler_init env fp rc) = fst (load_data env fp rc)"
    by (simp add: DataHandler_init_def split: prod.splits sum.splits)
  then show ?thesis by (simp add: load_data_trace)
qed

lemma load_model_trace: "messages (fst (load_model env mp)) = []"
  by (simp add: load_model_def messages_def split: sum.splits exn.splits)

lemma Predictor_init_trace: "messages (fst (Predictor_init env mp)) = []"
proof -
  have "fst (Predictor_init env mp) = fst (load_model env mp)"
    by (simp add: Predictor_init_def split: prod.splits sum.splits)
  then show ?thesis by (simp add: load_model_trace)
qed

lemma init_except_caught:
  "init_caught e \<Longrightarrow> init_except t e = (t @ [St_error (str_exn e), St_stop], Script_stopped)"
  by (simp add: init_except_def)

lemma init_except_uncaught:
  "\<not> init_caught e \<Longrightarrow> init_except t e = (t, Uncaught e)"
  by (simp add: init_except_def)

lemma messages_stop: "messages t = [] \<Longrightarrow> messages (t @ [St_error m, St_stop]) = [St_error m, St_stop]"
  by (simp add: messages_def)

text \<open>The constructor's result, by what the two loaders did.\<close>

lemma GoldPriceApp_init_data_failed:
  assumes "snd (DataHandler_init env dp rc) = Inl e"
  shows "GoldPriceApp_init env dp mp rc = init_except (fst (DataHandler_init env dp rc)) e"
  using assms
  by (cases "DataHandler_init env dp rc"; cases "Predictor_init env mp")
    (simp add: GoldPriceApp_init_def)

lemma GoldPriceApp_init_model_failed:
  assumes "snd (DataHandler_init env dp rc) = Inr dh" and "snd (Predictor_init env mp) = Inl e"
  shows "GoldPriceApp_init env dp mp rc =
           init_except (fst (DataHandler_init env dp rc) @ fst (Predictor_init env mp)) e"
  using assms
  by (cases "DataHandler_init env dp rc"; cases "Predictor_init env mp")
    (simp add: GoldPriceApp_init_def)

lemma GoldPriceApp_init_loaded:
  assumes "snd (DataHandler_init env dp rc) = Inr dh" and "snd (Predictor_init env mp) = Inr pr"
  shows "GoldPriceApp_init env dp mp rc =
           (fst (DataHandler_init env dp rc) @ fst (Predictor_init env mp),
            Returned \<lparr>app_data_handler = dh, app_predictor = pr, app_required_columns = rc\<rparr>)"
  using assms
  by (cases "DataHandler_init env dp rc"; cases "Predictor_init env mp")
    (simp add: GoldPriceApp_init_def)

lemma load_failure_cases:
  "load_failure env dp mp rc = Some e \<longleftrightarrow>
     snd (DataHandler_init env dp rc) = Inl e \<or>
     (\<exists>dh. snd (DataHandler_init env dp rc) = Inr dh) \<and> snd (Predictor_init env mp) = Inl e"
  by (auto simp: load_failure_def split: sum.splits)

lemma load_failure_None:
  "load_failure env dp mp rc = None \<longleftrightarrow>
     (\<exists>dh pr. snd (DataHandler_init env dp rc) = Inr dh \<and> snd (Predictor_init env mp) = Inr pr)"
  by (auto simp: load_failure_def split: sum.splits)

lemma GoldPriceApp_init_failed:
  assumes "load_failure env dp mp rc = Some e"
  shows "\<exists>t. messages t = [] \<and> GoldPriceApp_init env dp mp rc = init_except t e"
proof -
  from assms consider
    (data) "snd (DataHandler_init env dp rc) = Inl e"
  | (model) dh where "snd (DataHandler_init env dp rc) = Inr dh" "snd (Predictor_init env mp) = Inl e"
    by (auto simp: load_failure_cases)
  then show ?thesis
  proof cases
    case data
    from GoldPriceApp_init_data_failed [OF data] DataHandler_init_trace [of env dp rc]
    show ?thesis by blast
  next
    case model
    have "messages (fst (DataHandler_init env dp rc) @ fst (Predictor_init env mp)) = []"
      by (simp add: messages_append DataHandler_init_trace Predictor_init_trace)
    with GoldPriceApp_init_model_failed [OF model] show ?thesis by blast
  qed
qed

lemma GoldPriceApp_init_Returned:
  assumes "GoldPriceApp_init env dp mp rc = (t, Returned app)"
  shows "snd (DataHandler_init env dp rc) = Inr (app_data_handler app) \<and>
         snd (Predictor_init env mp) = Inr (app_predictor app) \<and>
         app_required_columns app = rc"
proof (cases "load_failure env dp mp rc")
  case (Some e)
  from GoldPriceApp_init_failed [OF Some] assms show ?thesis
    by (auto simp: init_except_def split: if_splits)
next
  case None
  then obtain dh pr where l: "snd (DataHandler_init env dp rc) = Inr dh"
      "snd (Predictor_init env mp) = Inr pr"
    by (auto simp: load_failure_None)
  from GoldPriceApp_init_loaded [OF l] assms l show ?thesis by auto
qed

text \<open>
  C10: during construction of the application only a \<open>FileNotFoundError\<close>, a
  \<open>ValueError\<close> or a \<open>pickle.PickleError\<close> is shown with \<open>st.error\<close> and followed by
  \<open>st.stop()\<close>; an exception of any other class raised while the dataset or the model is
  loaded leaves the constructor uncaught, with nothing shown.
\<close>

theorem GoldPriceApp_init_failure_kinds:
  "(snd (GoldPriceApp_init env dp mp rc) = Script_stopped \<longleftrightarrow>
      (\<exists>m. load_failure env dp mp rc = Some (FileNotFoundError m) \<or>
           load_failure env dp mp rc = Some (ValueError m) \<or>
           load_failure env dp mp rc = Some (PickleError m))) \<and>
   (load_failure env dp mp rc = Some e \<and> snd (GoldPriceApp_init env dp mp rc) = Script_stopped \<longrightarrow>
      messages (fst (GoldPriceApp_init env dp mp rc)) = [St_error (str_exn e), St_stop]) \<and>
   (load_failure env dp mp rc = Some (OtherException c m) \<longrightarrow>
      snd (GoldPriceApp_init env dp mp rc) = Uncaught (OtherException c m) \<and>
      messages (fst (GoldPriceApp_init env dp mp rc)) = [])"
proof (intro conjI impI)
  show "snd (GoldPriceApp_init env dp mp rc) = Script_stopped \<longleftrightarrow>
      (\<exists>m. load_failure env dp mp rc = Some (FileNotFoundError m) \<or>
           load_failure env dp mp rc = Some (ValueError m) \<or>
           load_failure env dp mp rc = Some (PickleError m))"
  proof (cases "load_failure env dp mp rc")
    case None
    then obtain dh pr where l: "snd (DataHandler_init env dp rc) = Inr dh"
        "snd (Predictor_init env mp) = Inr pr"
      by (auto simp: load_failure_None)
    from GoldPriceApp_init_loaded [OF l] None show ?thesis by simp
  next
    case (Some x)
    from GoldPriceApp_init_failed [OF Some] obtain t where
      "GoldPriceApp_init env dp mp rc = init_except t x" by blast
    with Some show ?thesis
      by (cases x) (simp_all add: init_except_def)
  qed
next
  assume a: "load_failure env dp mp rc = Some e \<and>
      snd (GoldPriceApp_init env dp mp rc) = Script_stopped"
  then obtain t where t: "messages t = []" "GoldPriceApp_init env dp mp rc = init_except t e"
    using GoldPriceApp_init_failed by blast
  with a have "init_caught e"
    by (auto simp: init_except_def split: if_splits)
  with t
  show "messages (fst (GoldPriceApp_init env dp mp rc)) = [St_error (str_exn e), St_stop]"
    by (simp add: init_except_caught messages_stop)
next
  assume a: "load_failure env dp mp rc = Some (OtherException c m)"
  then obtain t where t: "messages t = []"
      "GoldPriceApp_init env dp mp rc = init_except t (OtherException c m)"
    using GoldPriceApp_init_failed by blast
  then show "snd (GoldPriceApp_init env dp mp rc) = Uncaught (OtherException c m)"
    and "messages (fst (GoldPriceApp_init env dp mp rc)) = []"
    by (simp_all add: init_except_uncaught)
qed

lemma example_load_failure_data:
  "load_failure example_env ''nowhere.csv'' ''svm_model.pkl'' example_columns =
     Some (FileNotFoundError ''File not found: nowhere.csv'')"
  by (simp add: load_failure_def DataHandler_init_def load_data_def example_env_def)

lemma example_load_failure_model:
  "load_failure example_env ''Gold_Price.csv'' ''cut.pkl'' example_columns =
     Some (OtherException ''EOFError'' ''Ran out of input'')"
proof -
  have "snd (Predictor_init example_env ''cut.pkl'') =
      Inl (OtherException ''EOFError'' ''Ran out of input'')"
    by (simp add: Predictor_init_def load_model_def example_env_def)
  then show ?thesis
    by (simp add: load_failure_def example_DataHandler_init)
qed

theorem GoldPriceApp_init_failure_kinds_witness:
  "load_failure example_env ''nowhere.csv'' ''svm_model.pkl'' example_columns =
     Some (FileNotFoundError ''File not found: nowhere.csv'') \<and>
   snd (GoldPriceApp_init example_env ''nowhere.csv'' ''svm_model.pkl'' example_columns) =
     Script_stopped \<and>
   messages (fst (GoldPriceApp_init example_env ''nowhere.csv'' ''svm_model.pkl'' example_columns)) =
     [St_error ''File not found: nowhere.csv'', St_stop] \<and>
   load_failure example_env ''Gold_Price.csv'' ''cut.pkl'' example_columns =
     Some (OtherException ''EOFError'' ''Ran out of input'') \<and>
   snd (GoldPriceApp_init example_env ''Gold_Price.csv'' ''cut.pkl'' example_columns) =
     Uncaught (OtherException ''EOFError'' ''Ran out of input'') \<and>
   messages (fst (GoldPriceApp_init example_env ''Gold_Price.csv'' ''cut.pkl'' example_columns)) = []"
proof -
  note a = GoldPriceApp_init_failure_kinds [where env = example_env and dp = "''nowhere.csv''"
      and mp = "''svm_model.pkl''" and rc = example_columns
      and e = "FileNotFoundError ''File not found: nowhere.csv''" and c = "[]" and m = "[]"]
  from a [THEN conjunct1] example_load_failure_data
  have 1: "snd (GoldPriceApp_init example_env ''nowhere.csv'' ''svm_model.pkl'' example_columns) =
     Script_stopped"
    by simp
  from a [THEN conjunct2, THEN conjunct1] 1 example_load_failure_data
  have 2: "messages (fst (GoldPriceApp_init example_env ''nowhere.csv'' ''svm_model.pkl'' example_columns)) =
     [St_error ''File not found: nowhere.csv'', St_stop]"
    by simp
  note b = GoldPriceApp_init_failure_kinds [where env = example_env and dp = "''Gold_Price.csv''"
      and mp = "''cut.pkl''" and rc = example_columns
      and e = "PickleError []" and c = "''EOFError''" and m = "''Ran out of input''"]
  from b [THEN conjunct2, THEN conjunct2] example_load_failure_model
  have 3: "snd (GoldPriceApp_init example_env ''Gold_Price.csv'' ''cut.pkl'' example_columns) =
     Uncaught (OtherException ''EOFError'' ''Ran out of input'') \<and>
   messages (fst (GoldPriceApp_init example_env ''Gold_Price.csv'' ''cut.pkl'' example_columns)) = []"
    by simp
  from 1 2 3 example_load_failure_data example_load_failure_model show ?thesis by simp
qed

section \<open>One run of the page\<close>

lemma page_observed:
  "infer_calls (page_head @ page_form tbl @ xs) = infer_calls xs"
  "messages (page_head @ page_form tbl @ xs) = messages xs"
  "tables (page_head @ page_form tbl @ xs) = tbl # tables xs"
  by (simp_all add: page_head_def page_form_def infer_calls_def messages_def tables_def)

lemma page_observed_plain:
  "infer_calls (page_head @ page_form tbl) = []"
  "messages (page_head @ page_form tbl) = []"
  "tables (page_head @ page_form tbl) = [tbl]"
  by (simp_all add: page_head_def page_form_def infer_calls_def messages_def tables_def)

lemma tail_observed:
  "infer_calls [Model_predict d, St_write m] = [d]"
  "infer_calls [Model_predict d, St_error m] = [d]"
  "infer_calls [St_error m] = []"
  "messages [Model_predict d, St_write m] = [St_write m]"
  "messages [Model_predict d, St_error m] = [St_error m]"
  "messages [St_error m] = [St_error m]"
  "tables [Model_predict d, St_write m] = []"
  "tables [Model_predict d, St_error m] = []"
  "tables [St_error m] = []"
  by (simp_all add: infer_calls_def messages_def tables_def)

lemma run_not_clicked:
  "get_head (app_data_handler app) 4 = Inr tbl \<Longrightarrow> \<not> predict_clicked inp \<Longrightarrow>
     run env app inp = (page_head @ page_form tbl, Returned app)"
  by (simp add: run_def)

lemma run_invalid:
  "get_head (app_data_handler app) 4 = Inr tbl \<Longrightarrow> predict_clicked inp \<Longrightarrow>
   open_price inp \<le> 0 \<or> high_price inp \<le> 0 \<or> low_price inp \<le> 0 \<Longrightarrow>
     run env app inp =
       (page_head @ page_form tbl @ [St_error ''All prices must be positive values.''], Returned app)"
  by (simp add: run_def)

lemma run_predicted:
  "get_head (app_data_handler app) 4 = Inr tbl \<Longrightarrow> predict_clicked inp \<Longrightarrow>
   0 < open_price inp \<Longrightarrow> 0 < high_price inp \<Longrightarrow> 0 < low_price inp \<Longrightarrow>
   predict env (app_predictor app) (input_df inp) = (Inr y, pr) \<Longrightarrow>
     run env app inp =
       (page_head @ page_form tbl @
          [Model_predict (input_df inp),
           St_write (''The predicted closing price is: '' @ format_2f env y)],
        Returned (app\<lparr>app_predictor := pr\<rparr>))"
  by (simp add: run_def not_le [symmetric])

lemma run_prediction_failed:
  "get_head (app_data_handler app) 4 = Inr tbl \<Longrightarrow> predict_clicked inp \<Longrightarrow>
   0 < open_price inp \<Longrightarrow> 0 < high_price inp \<Longrightarrow> 0 < low_price inp \<Longrightarrow>
   predict env (app_predictor app) (input_df inp) = (Inl e, pr) \<Longrightarrow>
     run env app inp =
       (page_head @ page_form tbl @
          [Model_predict (input_df inp), St_error (''Prediction failed: '' @ str_exn e)],
        Returned (app\<lparr>app_predictor := pr\<rparr>))"
  by (simp add: run_def not_le [symmetric])

lemma run_infer_calls_valid:
  assumes "get_head (app_data_handler app) 4 = Inr tbl" and "predict_clicked inp"
    and "0 < open_price inp" and "0 < high_price inp" and "0 < low_price inp"
  shows "infer_calls (fst (run env app inp)) = [input_df inp]"
proof (cases "predict env (app_predictor app) (input_df inp)")
  case (Pair r pr)
  show ?thesis
  proof (cases r)
    case (Inl e)
    with Pair run_prediction_failed [OF assms, of env e pr] show ?thesis
      by (simp add: page_observed tail_observed)
  next
    case (Inr y)
    with Pair run_predicted [OF assms, of env y pr] show ?thesis
      by (simp add: page_observed tail_observed)
  qed
qed

text \<open>A run on an application whose dataset holds the required columns returns, and
  leaves the data handler as it was.\<close>

lemma run_returns:
  assumes "set (dh_required_columns (app_data_handler app)) \<subseteq>
             set (column_names (dh_df (app_data_handler app)))"
  shows "\<exists>t app'. run env app inp = (t, Returned app') \<and>
           app_data_handler app' = app_data_handler app"
proof -
  from get_head_view [OF assms, of 4] obtain tbl where
    tbl: "get_head (app_data_handler app) 4 = Inr tbl" by auto
  show ?thesis
  proof (cases "predict_clicked inp")
    case False
    with run_not_clicked [OF tbl] show ?thesis by simp
  next
    case True
    show ?thesis
    proof (cases "open_price inp \<le> 0 \<or> high_price inp \<le> 0 \<or> low_price inp \<le> 0")
      case bad: True
      from run_invalid [OF tbl True bad] show ?thesis by simp
    next
      case False
      then have pos: "0 < open_price inp" "0 < high_price inp" "0 < low_price inp"
        by simp_all
      obtain r pr where p: "predict env (app_predictor app) (input_df inp) = (r, pr)"
        by (cases "predict env (app_predictor app) (input_df inp)")
      show ?thesis
      proof (cases r)
        case (Inl e)
        with p run_prediction_failed [OF tbl True pos, of env e pr] show ?thesis by simp
      next
        case (Inr y)
        with p run_predicted [OF tbl True pos, of env y pr] show ?thesis by simp
      qed
    qed
  qed
qed

lemma session_returns:
  assumes "set (dh_required_columns (app_data_handler app)) \<subseteq>
             set (column_names (dh_df (app_data_handler app)))"
  shows "\<exists>ts app'. session env app inps = (ts, Returned app') \<and> length ts = length inps"
  using assms
proof (induction inps arbitrary: app)
  case Nil
  show ?case by simp
next
  case (Cons inp inps)
  from run_returns [OF Cons.prems] obtain t a where
    r: "run env app inp = (t, Returned a)" and dh: "app_data_handler a = app_data_handler app"
    by blast
  from dh Cons.prems have "set (dh_required_columns (app_data_handler a)) \<subseteq>
      set (column_names (dh_df (app_data_handler a)))"
    by simp
  from Cons.IH [OF this] obtain ts a' where
    "session env a inps = (ts, Returned a')" "length ts = length inps"
    by blast
  with r show ?case by simp
qed

lemma constructed_columns:
  assumes "GoldPriceApp_init env dp mp rc = (t, Returned app)"
  shows "dh_required_columns (app_data_handler app) = rc"
    and "set (dh_required_columns (app_data_handler app)) \<subseteq>
           set (column_names (dh_df (app_data_handler app)))"
    and "read_csv env dp = Inr (dh_df (app_data_handler app))"
proof -
  from GoldPriceApp_init_Returned [OF assms]
  have "snd (DataHandler_init env dp rc) = Inr (app_data_handler app)" by simp
  then have "DataHandler_init env dp rc =
      (fst (DataHandler_init env dp rc), Inr (app_data_handler app))"
    by (metis prod.collapse)
  from DataHandler_init_Inr [OF this]
  show "dh_required_columns (app_data_handler app) = rc"
    and "set (dh_required_columns (app_data_handler app)) \<subseteq>
           set (column_names (dh_df (app_data_handler app)))"
    and "read_csv env dp = Inr (dh_df (app_data_handler app))"
    by simp_all
qed

lemma tables_run:
  assumes "get_head (app_data_handler app) 4 = Inr tbl"
  shows "tables (fst (run env app inp)) = [tbl]"
proof (cases "predict env (app_predictor app) (input_df inp)")
  case (Pair r pr)
  show ?thesis
    using assms Pair
    by (cases r) (simp_all add: run_def page_observed page_observed_plain tail_observed)
qed

subsection \<open>The example, constructed and run\<close>

lemma example_GoldPriceApp_init:
  "GoldPriceApp_init example_env ''Gold_Price.csv'' ''svm_model.pkl'' example_columns =
     ([Read_csv ''Gold_Price.csv'', Pickle_load ''svm_model.pkl''], Returned example_app)"
proof -
  have "Predictor_init example_env ''svm_model.pkl'' =
      ([Pickle_load ''svm_model.pkl''], Inr \<lparr>pr_model_path = ''svm_model.pkl'', pr_model = 0\<rparr>)"
    by (simp add: Predictor_init_def load_model_def example_env_def)
  then show ?thesis
    by (simp add: GoldPriceApp_init_def example_DataHandler_init example_app_def)
qed

lemma example_table:
  "get_head (app_data_handler example_app) 4 = Inr (head example_view 4)"
  by (simp add: example_app_def example_get_head)

lemma example_predict_ok:
  "predict example_env (app_predictor example_app) (input_df (ui 1900 1950 1880 True)) =
     (Inr 1910, app_predictor example_app)"
  by (simp add: predict_def example_env_def example_predict_def example_app_def input_df_def ui_def)

lemma example_predict_raises:
  "predict example_env (app_predictor example_app) (input_df (ui 10 5 8 True)) =
     (Inl (ValueError ''High below Low''), app_predictor example_app)"
  by (simp add: predict_def example_env_def example_predict_def example_app_def input_df_def ui_def)

lemma example_run_ok:
  "run example_env example_app (ui 1900 1950 1880 True) =
     (page_head @ page_form (head example_view 4) @
        [Model_predict (input_df (ui 1900 1950 1880 True)),
         St_write ''The predicted closing price is: 1910.00''],
      Returned example_app)"
proof -
  have f: "format_2f example_env 1910 = ''1910.00''"
    by (simp add: example_env_def)
  have u: "predict_clicked (ui 1900 1950 1880 True)" "0 < open_price (ui 1900 1950 1880 True)"
    "0 < high_price (ui 1900 1950 1880 True)" "0 < low_price (ui 1900 1950 1880 True)"
    by (simp_all add: ui_def)
  from run_predicted [OF example_table u example_predict_ok] f show ?thesis
    by simp
qed

lemma example_run_raises:
  "run example_env example_app (ui 10 5 8 True) =
     (page_head @ page_form (head example_view 4) @
        [Model_predict (input_df (ui 10 5 8 True)),
         St_error ''Prediction failed: High below Low''],
      Returned example_app)"
proof -
  have u: "predict_clicked (ui 10 5 8 True)" "0 < open_price (ui 10 5 8 True)"
    "0 < high_price (ui 10 5 8 True)" "0 < low_price (ui 10 5 8 True)"
    by (simp_all add: ui_def)
  from run_prediction_failed [OF example_table u example_predict_raises] show ?thesis
    by simp
qed

section \<open>The predict action\<close>

text \<open>
  C1: for every predict trigger in which one of the three entered values is at most zero,
  the application does not call the model, shows the validation error, and returns with
  the application unchanged, so it stays ready.
\<close>

theorem run_rejects_nonpositive:
  assumes "GoldPriceApp_init env dp mp rc = (t0, Returned app)"
    and "predict_clicked inp"
    and "open_price inp \<le> 0 \<or> high_price inp \<le> 0 \<or> low_price inp \<le> 0"
  shows "infer_calls (fst (run env app inp)) = [] \<and>
         messages (fst (run env app inp)) = [St_error ''All prices must be positive values.''] \<and>
         snd (run env app inp) = Returned app"
proof -
  from get_head_view [OF constructed_columns(2) [OF assms(1)], of 4] obtain tbl where
    "get_head (app_data_handler app) 4 = Inr tbl" by auto
  from run_invalid [OF this assms(2,3)] show ?thesis
    by (simp add: page_observed tail_observed)
qed

theorem run_rejects_nonpositive_witness:
  "GoldPriceApp_init example_env ''Gold_Price.csv'' ''svm_model.pkl'' example_columns =
     ([Read_csv ''Gold_Price.csv'', Pickle_load ''svm_model.pkl''], Returned example_app) \<and>
   predict_clicked (ui 0 10 5 True) \<and>
   open_price (ui 0 10 5 True) \<le> 0 \<and>
   infer_calls (fst (run example_env example_app (ui 0 10 5 True))) = [] \<and>
   messages (fst (run example_env example_app (ui 0 10 5 True))) =
     [St_error ''All prices must be positive values.''] \<and>
   snd (run example_env example_app (ui 0 10 5 True)) = Returned example_app"
proof -
  have c: "predict_clicked (ui 0 10 5 True)" by (simp add: ui_def)
  have z: "open_price (ui 0 10 5 True) \<le> 0" by (simp add: ui_def)
  then have d: "open_price (ui 0 10 5 True) \<le> 0 \<or> high_price (ui 0 10 5 True) \<le> 0 \<or>
      low_price (ui 0 10 5 True) \<le> 0" by simp
  from run_rejects_nonpositive [OF example_GoldPriceApp_init c d] example_GoldPriceApp_init c z
  show ?thesis by simp
qed

text \<open>
  C9: whatever the required columns are, a valid predict action hands the model one
  record, with the columns \<open>Open\<close>, \<open>High\<close>, \<open>Low\<close> in this order holding the entered
  open, high and low values: the model is called once, on this record, the application
  keeps the model as that call leaves it, and what is shown is the model's answer to it.
\<close>

theorem run_feature_record:
  assumes "GoldPriceApp_init env dp mp rc = (t0, Returned app)"
    and "predict_clicked inp"
    and "0 < open_price inp" and "0 < high_price inp" and "0 < low_price inp"
    and "frame = \<lparr>df_index = [0],
                    df_columns = [(''Open'', [Num (open_price inp)]),
                                  (''High'', [Num (high_price inp)]),
                                  (''Low'', [Num (low_price inp)])]\<rparr>"
  shows "infer_calls (fst (run env app inp)) = [frame] \<and>
         snd (run env app inp) =
           Returned (app\<lparr>app_predictor := (app_predictor app)
             \<lparr>pr_model := snd (model_predict env (pr_model (app_predictor app)) frame)\<rparr>\<rparr>) \<and>
         messages (fst (run env app inp)) =
           [case fst (model_predict env (pr_model (app_predictor app)) frame) of
              Inl e \<Rightarrow> St_error (''Prediction failed: '' @ str_exn e)
            | Inr ys \<Rightarrow>
                (case ys of
                   [] \<Rightarrow> St_error (''Prediction failed: '' @ index_error_text env)
                 | y # _ \<Rightarrow> St_write (''The predicted closing price is: '' @ format_2f env y))]"
proof -
  from get_head_view [OF constructed_columns(2) [OF assms(1)], of 4] obtain tbl where
    tbl: "get_head (app_data_handler app) 4 = Inr tbl" by auto
  have frame: "input_df inp = frame"
    by (simp add: input_df_def assms(6))
  obtain res mdl where m: "model_predict env (pr_model (app_predictor app)) frame = (res, mdl)"
    by (cases "model_predict env (pr_model (app_predictor app)) frame")
  let ?pr = "(app_predictor app)\<lparr>pr_model := mdl\<rparr>"
  show ?thesis
  proof (cases res)
    case (Inl e)
    with m frame have "predict env (app_predictor app) (input_df inp) = (Inl e, ?pr)"
      by (simp add: predict_def)
    from run_prediction_failed [OF tbl assms(2-5) this] m Inl frame show ?thesis
      by (simp add: page_observed tail_observed)
  next
    case (Inr ys)
    show ?thesis
    proof (cases ys)
      case Nil
      with m Inr frame have "predict env (app_predictor app) (input_df inp) =
          (Inl (OtherException ''IndexError'' (index_error_text env)), ?pr)"
        by (simp add: predict_def)
      from run_prediction_failed [OF tbl assms(2-5) this] m Inr Nil frame show ?thesis
        by (simp add: page_observed tail_observed)
    next
      case (Cons y zs)
      with m Inr frame have "predict env (app_predictor app) (input_df inp) = (Inr y, ?pr)"
        by (simp add: predict_def)
      from run_predicted [OF tbl assms(2-5) this] m Inr Cons frame show ?thesis
        by (simp add: page_observed tail_observed)
    qed
  qed
qed

lemma recording_GoldPriceApp_init:
  assumes "set rc \<subseteq> {''Date'', ''Open'', ''High'', ''Low''}"
  shows "GoldPriceApp_init recording_env ''Gold_Price.csv'' ''svm_model.pkl'' rc =
     ([Read_csv ''Gold_Price.csv'', Pickle_load ''svm_model.pkl''], Returned (recording_app rc))"
proof -
  have "set rc \<subseteq> set (column_names example_df)"
    using assms by (simp add: column_names_def example_df_def)
  then have "DataHandler_init recording_env ''Gold_Price.csv'' rc =
      ([Read_csv ''Gold_Price.csv''],
       Inr \<lparr>dh_file_path = ''Gold_Price.csv'', dh_required_columns = rc, dh_df = example_df\<rparr>)"
    by (simp add: DataHandler_init_def load_data_def recording_env_def)
  moreover have "Predictor_init recording_env ''svm_model.pkl'' =
      ([Pickle_load ''svm_model.pkl''], Inr \<lparr>pr_model_path = ''svm_model.pkl'', pr_model = []\<rparr>)"
    by (simp add: Predictor_init_def load_model_def recording_env_def)
  ultimately show ?thesis
    by (simp add: GoldPriceApp_init_def recording_app_def)
qed

theorem run_feature_record_witness:
  "GoldPriceApp_init recording_env ''Gold_Price.csv'' ''svm_model.pkl'' [''Low'', ''Date''] =
     ([Read_csv ''Gold_Price.csv'', Pickle_load ''svm_model.pkl''],
      Returned (recording_app [''Low'', ''Date''])) \<and>
   GoldPriceApp_init recording_env ''Gold_Price.csv'' ''svm_model.pkl'' [''Open'', ''High'', ''Low''] =
     ([Read_csv ''Gold_Price.csv'', Pickle_load ''svm_model.pkl''],
      Returned (recording_app [''Open'', ''High'', ''Low''])) \<and>
   predict_clicked (ui 1900 1950 1880 True) \<and>
   0 < open_price (ui 1900 1950 1880 True) \<and>
   0 < high_price (ui 1900 1950 1880 True) \<and>
   0 < low_price (ui 1900 1950 1880 True) \<and>
   infer_calls (fst (run recording_env (recording_app [''Low'', ''Date'']) (ui 1900 1950 1880 True))) =
     [\<lparr>df_index = [0],
       df_columns = [(''Open'', [Num 1900]), (''High'', [Num 1950]), (''Low'', [Num 1880])]\<rparr>] \<and>
   snd (run recording_env (recording_app [''Low'', ''Date'']) (ui 1900 1950 1880 True)) =
     Returned ((recording_app [''Low'', ''Date''])
       \<lparr>app_predictor := \<lparr>pr_model_path = ''svm_model.pkl'',
          pr_model = [\<lparr>df_index = [0],
            df_columns = [(''Open'', [Num 1900]), (''High'', [Num 1950]), (''Low'', [Num 1880])]\<rparr>]\<rparr>\<rparr>) \<and>
   messages (fst (run recording_env (recording_app [''Low'', ''Date'']) (ui 1900 1950 1880 True))) =
     [St_write ''The predicted closing price is: 0.00''] \<and>
   snd (run recording_env (recording_app [''Open'', ''High'', ''Low'']) (ui 1900 1950 1880 True)) =
     Returned ((recording_app [''Open'', ''High'', ''Low''])
       \<lparr>app_predictor := \<lparr>pr_model_path = ''svm_model.pkl'',
          pr_model = [\<lparr>df_index = [0],
            df_columns = [(''Open'', [Num 1900]), (''High'', [Num 1950]), (''Low'', [Num 1880])]\<rparr>]\<rparr>\<rparr>)"
proof -
  let ?inp = "ui 1900 1950 1880 True"
  let ?frame = "\<lparr>df_index = [0],
       df_columns = [(''Open'', [Num 1900]), (''High'', [Num 1950]), (''Low'', [Num 1880])]\<rparr>"
  have u: "predict_clicked ?inp" "0 < open_price ?inp" "0 < high_price ?inp" "0 < low_price ?inp"
    by (simp_all add: ui_def)
  have f: "?frame = \<lparr>df_index = [0],
       df_columns = [(''Open'', [Num (open_price ?inp)]), (''High'', [Num (high_price ?inp)]),
                     (''Low'', [Num (low_price ?inp)])]\<rparr>"
    by (simp add: ui_def)
  have a: "GoldPriceApp_init recording_env ''Gold_Price.csv'' ''svm_model.pkl'' [''Low'', ''Date''] =
     ([Read_csv ''Gold_Price.csv'', Pickle_load ''svm_model.pkl''],
      Returned (recording_app [''Low'', ''Date'']))"
    by (rule recording_GoldPriceApp_init) simp
  have b: "GoldPriceApp_init recording_env ''Gold_Price.csv'' ''svm_model.pkl'' [''Open'', ''High'', ''Low''] =
     ([Read_csv ''Gold_Price.csv'', Pickle_load ''svm_model.pkl''],
      Returned (recording_app [''Open'', ''High'', ''Low'']))"
    by (rule recording_GoldPriceApp_init) simp
  have m: "model_predict recording_env [] ?frame = (Inr [0], [?frame])"
    "format_2f recording_env 0 = ''0.00''"
    by (simp_all add: recording_env_def)
  have p: "app_predictor (recording_app rc) = \<lparr>pr_model_path = ''svm_model.pkl'', pr_model = []\<rparr>"
    for rc by (simp add: recording_app_def)
  from run_feature_record [OF a u f] m
  have 1: "infer_calls (fst (run recording_env (recording_app [''Low'', ''Date'']) ?inp)) = [?frame]"
    and 2: "snd (run recording_env (recording_app [''Low'', ''Date'']) ?inp) =
      Returned ((recording_app [''Low'', ''Date''])
        \<lparr>app_predictor := \<lparr>pr_model_path = ''svm_model.pkl'', pr_model = [?frame]\<rparr>\<rparr>)"
    and 3: "messages (fst (run recording_env (recording_app [''Low'', ''Date'']) ?inp)) =
      [St_write ''The predicted closing price is: 0.00'']"
    by (simp_all add: p)
  from run_feature_record [OF b u f] m
  have 4: "snd (run recording_env (recording_app [''Open'', ''High'', ''Low'']) ?inp) =
      Returned ((recording_app [''Open'', ''High'', ''Low''])
        \<lparr>app_predictor := \<lparr>pr_model_path = ''svm_model.pkl'', pr_model = [?frame]\<rparr>\<rparr>)"
    by (simp add: p)
  from a b u 1 2 3 4 show ?thesis by simp
qed

text \<open>
  C7: if the inference call raises during a predict action, the application shows the
  message "Prediction failed: ..." and returns without stopping; every further
  interaction is served, and a further valid predict trigger calls the model again.
\<close>

theorem run_survives_inference_error:
  assumes "GoldPriceApp_init env dp mp rc = (t0, Returned app)"
    and "predict_clicked inp"
    and "0 < open_price inp" and "0 < high_price inp" and "0 < low_price inp"
    and "fst (predict env (app_predictor app) (input_df inp)) = Inl e"
  shows "\<exists>app'. snd (run env app inp) = Returned app' \<and>
           messages (fst (run env app inp)) = [St_error (''Prediction failed: '' @ str_exn e)] \<and>
           (\<forall>inps. \<exists>ts app''. session env app' inps = (ts, Returned app'') \<and>
                      length ts = length inps) \<and>
           (\<forall>inp'. predict_clicked inp' \<and> 0 < open_price inp' \<and> 0 < high_price inp' \<and>
                   0 < low_price inp' \<longrightarrow>
                   infer_calls (fst (run env app' inp')) = [input_df inp'])"
proof -
  note cols = constructed_columns(2) [OF assms(1)]
  from get_head_view [OF cols, of 4] obtain tbl where
    tbl: "get_head (app_data_handler app) 4 = Inr tbl" by auto
  obtain pr where p: "predict env (app_predictor app) (input_df inp) = (Inl e, pr)"
    using assms(6) by (cases "predict env (app_predictor app) (input_df inp)") simp
  let ?app' = "app\<lparr>app_predictor := pr\<rparr>"
  note r = run_prediction_failed [OF tbl assms(2-5) p]
  have ret: "snd (run env app inp) = Returned ?app'"
    by (simp add: r)
  have msg: "messages (fst (run env app inp)) = [St_error (''Prediction failed: '' @ str_exn e)]"
    by (simp add: r page_observed tail_observed)
  have cols': "set (dh_required_columns (app_data_handler ?app')) \<subseteq>
      set (column_names (dh_df (app_data_handler ?app')))"
    using cols by simp
  have tbl': "get_head (app_data_handler ?app') 4 = Inr tbl"
    using tbl by simp
  have more: "\<forall>inps. \<exists>ts app''. session env ?app' inps = (ts, Returned app'') \<and>
      length ts = length inps"
    using session_returns [OF cols'] by blast
  have again: "\<forall>inp'. predict_clicked inp' \<and> 0 < open_price inp' \<and> 0 < high_price inp' \<and>
      0 < low_price inp' \<longrightarrow> infer_calls (fst (run env ?app' inp')) = [input_df inp']"
    using run_infer_calls_valid [OF tbl'] by blast
  from ret msg more again show ?thesis by blast
qed

theorem run_survives_inference_error_witness:
  "GoldPriceApp_init example_env ''Gold_Price.csv'' ''svm_model.pkl'' example_columns =
     ([Read_csv ''Gold_Price.csv'', Pickle_load ''svm_model.pkl''], Returned example_app) \<and>
   predict_clicked (ui 10 5 8 True) \<and>
   0 < open_price (ui 10 5 8 True) \<and> 0 < high_price (ui 10 5 8 True) \<and>
   0 < low_price (ui 10 5 8 True) \<and>
   fst (predict example_env (app_predictor example_app) (input_df (ui 10 5 8 True))) =
     Inl (ValueError ''High below Low'') \<and>
   snd (run example_env example_app (ui 10 5 8 True)) = Returned example_app \<and>
   messages (fst (run example_env example_app (ui 10 5 8 True))) =
     [St_error ''Prediction failed: High below Low''] \<and>
   infer_calls (fst (run example_env example_app (ui 1900 1950 1880 True))) =
     [input_df (ui 1900 1950 1880 True)]"
proof -
  have u: "predict_clicked (ui 10 5 8 True)" "0 < open_price (ui 10 5 8 True)"
    "0 < high_price (ui 10 5 8 True)" "0 < low_price (ui 10 5 8 True)"
    by (simp_all add: ui_def)
  have e: "fst (predict example_env (app_predictor example_app) (input_df (ui 10 5 8 True))) =
     Inl (ValueError ''High below Low'')"
    by (simp add: example_predict_raises)
  have v: "predict_clicked (ui 1900 1950 1880 True) \<and> 0 < open_price (ui 1900 1950 1880 True) \<and>
    0 < high_price (ui 1900 1950 1880 True) \<and> 0 < low_price (ui 1900 1950 1880 True)"
    by (simp add: ui_def)
  from run_survives_inference_error [OF example_GoldPriceApp_init u e]
  obtain app' where a: "snd (run example_env example_app (ui 10 5 8 True)) = Returned app'"
    and m: "messages (fst (run example_env example_app (ui 10 5 8 True))) =
      [St_error (''Prediction failed: '' @ str_exn (ValueError ''High below Low''))]"
    and i: "\<forall>inp'. predict_clicked inp' \<and> 0 < open_price inp' \<and> 0 < high_price inp' \<and>
      0 < low_price inp' \<longrightarrow> infer_calls (fst (run example_env app' inp')) = [input_df inp']"
    by blast
  from a have "app' = example_app"
    by (simp add: example_run_raises)
  with i v have "infer_calls (fst (run example_env example_app (ui 1900 1950 1880 True))) =
     [input_df (ui 1900 1950 1880 True)]"
    by blast
  with a m \<open>app' = example_app\<close> u e example_GoldPriceApp_init show ?thesis
    by simp
qed

text \<open>
  C8: two predict triggers in a row with the same valid inputs, where the model is the
  same after the first call as before it, give the same result of the inference call and
  show the same page both times.
\<close>

theorem predict_twice_same_result:
  assumes "GoldPriceApp_init env dp mp rc = (t0, Returned app)"
    and "predict_clicked inp"
    and "0 < open_price inp" and "0 < high_price inp" and "0 < low_price inp"
    and "snd (model_predict env (pr_model (app_predictor app)) (input_df inp)) =
           pr_model (app_predictor app)"
  shows "\<exists>t app'. run env app inp = (t, Returned app') \<and>
           fst (predict env (app_predictor app') (input_df inp)) =
             fst (predict env (app_predictor app) (input_df inp)) \<and>
           session env app [inp, inp] = ([t, t], Returned app')"
proof -
  note cols = constructed_columns(2) [OF assms(1)]
  from run_returns [OF cols] obtain t app' where
    r: "run env app inp = (t, Returned app')" by blast
  have same: "snd (predict env (app_predictor app) (input_df inp)) = app_predictor app"
    using assms(6)
    by (cases "model_predict env (pr_model (app_predictor app)) (input_df inp)")
      (simp add: predict_def split: sum.splits list.splits)
  from get_head_view [OF cols, of 4] obtain tbl where
    tbl: "get_head (app_data_handler app) 4 = Inr tbl" by auto
  obtain res pr where p: "predict env (app_predictor app) (input_df inp) = (res, pr)"
    by (cases "predict env (app_predictor app) (input_df inp)")
  with same have pr: "pr = app_predictor app" by simp
  have "app' = app"
  proof (cases res)
    case (Inl e)
    with p run_prediction_failed [OF tbl assms(2-5), of env e pr] r pr show ?thesis by simp
  next
    case (Inr y)
    with p run_predicted [OF tbl assms(2-5), of env y pr] r pr show ?thesis by simp
  qed
  with r have "session env app [inp, inp] = ([t, t], Returned app')"
    by simp
  with r \<open>app' = app\<close> show ?thesis by simp
qed

theorem predict_twice_same_result_witness:
  "GoldPriceApp_init example_env ''Gold_Price.csv'' ''svm_model.pkl'' example_columns =
     ([Read_csv ''Gold_Price.csv'', Pickle_load ''svm_model.pkl''], Returned example_app) \<and>
   predict_clicked (ui 1900 1950 1880 True) \<and>
   0 < open_price (ui 1900 1950 1880 True) \<and>
   0 < high_price (ui 1900 1950 1880 True) \<and>
   0 < low_price (ui 1900 1950 1880 True) \<and>
   snd (model_predict example_env (pr_model (app_predictor example_app))
          (input_df (ui 1900 1950 1880 True))) = pr_model (app_predictor example_app) \<and>
   fst (predict example_env (app_predictor example_app) (input_df (ui 1900 1950 1880 True))) =
     Inr 1910 \<and>
   session example_env example_app [ui 1900 1950 1880 True, ui 1900 1950 1880 True] =
     ([fst (run example_env example_app (ui 1900 1950 1880 True)),
       fst (run example_env example_app (ui 1900 1950 1880 True))],
      Returned example_app) \<and>
   messages (fst (run example_env example_app (ui 1900 1950 1880 True))) =
     [St_write ''The predicted closing price is: 1910.00'']"
proof -
  have u: "predict_clicked (ui 1900 1950 1880 True)" "0 < open_price (ui 1900 1950 1880 True)"
    "0 < high_price (ui 1900 1950 1880 True)" "0 < low_price (ui 1900 1950 1880 True)"
    by (simp_all add: ui_def)
  have s: "snd (model_predict example_env (pr_model (app_predictor example_app))
          (input_df (ui 1900 1950 1880 True))) = pr_model (app_predictor example_app)"
    by (simp add: example_env_def example_predict_def example_app_def input_df_def ui_def)
  from predict_twice_same_result [OF example_GoldPriceApp_init u s]
  obtain t app' where r: "run example_env example_app (ui 1900 1950 1880 True) = (t, Returned app')"
    and ss: "session example_env example_app [ui 1900 1950 1880 True, ui 1900 1950 1880 True] =
      ([t, t], Returned app')"
    by blast
  from r have a: "app' = example_app" and t: "t = fst (run example_env example_app (ui 1900 1950 1880 True))"
    by (simp_all add: example_run_ok)
  have m: "messages (fst (run example_env example_app (ui 1900 1950 1880 True))) =
     [St_write ''The predicted closing price is: 1910.00'']"
    by (simp add: example_run_ok page_observed tail_observed)
  have p: "fst (predict example_env (app_predictor example_app) (input_df (ui 1900 1950 1880 True))) =
     Inr 1910"
    by (simp add: example_predict_ok)
  from ss a t m p u s example_GoldPriceApp_init show ?thesis
    by simp
qed

section \<open>The preview table of the page\<close>

text \<open>
  C3, as the code has it: the page shows one table, the first 4 rows (all rows when there
  are fewer) of the loaded dataset, restricted to the required columns; the call is
  \<open>get_head(4)\<close>, not the last 4 rows.
\<close>

theorem run_shows_first_rows:
  assumes "GoldPriceApp_init env dp mp rc = (t0, Returned app)"
  shows "\<exists>tbl. tables (fst (run env app inp)) = [tbl] \<and>
           read_csv env dp = Inr (dh_df (app_data_handler app)) \<and>
           get_head (app_data_handler app) 4 = Inr tbl \<and>
           row_count tbl = min 4 (row_count (dh_df (app_data_handler app))) \<and>
           df_index tbl = take 4 (df_index (dh_df (app_data_handler app))) \<and>
           column_names tbl = rc \<and>
           (\<forall>(c, vs) \<in> set (df_columns tbl).
              \<exists>ws. map_of (df_columns (dh_df (app_data_handler app))) c = Some ws \<and> vs = take 4 ws)"
proof -
  note cols = constructed_columns [OF assms]
  have four: "nat 4 = 4" by simp
  from get_head_view [OF cols(2), of 4] obtain tbl where
    tbl: "get_head (app_data_handler app) 4 = Inr tbl"
      "row_count tbl = min 4 (row_count (dh_df (app_data_handler app)))"
      "df_index tbl = take 4 (df_index (dh_df (app_data_handler app)))"
      "column_names tbl = dh_required_columns (app_data_handler app)"
      "\<forall>(c, vs) \<in> set (df_columns tbl).
         \<exists>ws. map_of (df_columns (dh_df (app_data_handler app))) c = Some ws \<and> vs = take 4 ws"
    unfolding four by auto
  from tables_run [OF tbl(1)] have "tables (fst (run env app inp)) = [tbl]" .
  with tbl cols(1,3) show ?thesis by auto
qed

theorem run_shows_first_rows_witness:
  "GoldPriceApp_init example_env ''Gold_Price.csv'' ''svm_model.pkl'' example_columns =
     ([Read_csv ''Gold_Price.csv'', Pickle_load ''svm_model.pkl''], Returned example_app) \<and>
   tables (fst (run example_env example_app (ui 0 0 0 False))) =
     [\<lparr>df_index = [0, 1, 2, 3],
       df_columns = [(''Open'', [Num 10, Num 11, Num 12, Num 13]),
                     (''High'', [Num 20, Num 21, Num 22, Num 23]),
                     (''Low'', [Num 5, Num 6, Num 7, Num 8])]\<rparr>]"
proof -
  from run_shows_first_rows [OF example_GoldPriceApp_init, of "ui 0 0 0 False"]
  obtain tbl where t: "tables (fst (run example_env example_app (ui 0 0 0 False))) = [tbl]"
    and g: "get_head (app_data_handler example_app) 4 = Inr tbl"
    by blast
  from g have "tbl = head example_view 4"
    by (simp add: example_table)
  also have "\<dots> = \<lparr>df_index = [0, 1, 2, 3],
       df_columns = [(''Open'', [Num 10, Num 11, Num 12, Num 13]),
                     (''High'', [Num 20, Num 21, Num 22, Num 23]),
                     (''Low'', [Num 5, Num 6, Num 7, Num 8])]\<rparr>"
    by (simp add: head_nonneg example_view_def)
  finally show ?thesis
    using t example_GoldPriceApp_init by simp
qed

theorem run_shows_last_rows_counterexample:
  "GoldPriceApp_init example_env ''Gold_Price.csv'' ''svm_model.pkl'' example_columns =
     ([Read_csv ''Gold_Price.csv'', Pickle_load ''svm_model.pkl''], Returned example_app) \<and>
   getitem_columns (dh_df (app_data_handler example_app)) example_columns = Inr example_view \<and>
   tables (fst (run example_env example_app (ui 0 0 0 False))) = [head example_view 4] \<and>
   df_index (head example_view 4) = [0, 1, 2, 3] \<and>
   df_index (last_rows example_view 4) = [1, 2, 3, 4] \<and>
   tables (fst (run example_env example_app (ui 0 0 0 False))) \<noteq> [last_rows example_view 4]"
proof -
  have g: "getitem_columns (dh_df (app_data_handler example_app)) example_columns = Inr example_view"
    by (simp add: example_app_def example_dh_def example_getitem)
  have t: "tables (fst (run example_env example_app (ui 0 0 0 False))) = [head example_view 4]"
    by (simp add: tables_run [OF example_table])
  have h: "df_index (head example_view 4) = [0, 1, 2, 3]"
    by (simp add: head_nonneg example_view_def)
  have l: "df_index (last_rows example_view 4) = [1, 2, 3, 4]"
    by (simp add: last_rows_def example_view_def)
  from h l have "head example_view 4 \<noteq> last_rows example_view 4"
    by auto
  with g t h l example_GoldPriceApp_init show ?thesis by simp
qed

end
